theory Spec2Isabelle
  imports Complex_Main "HOL-Library.Word" "HOL-Library.AList"
begin

section \<open>The document-processing pipeline of the chat application\<close>

text \<open>
  This theory embeds \<^verbatim>\<open>src/document/document_processor.py\<close> and
  \<^verbatim>\<open>src/document/processor_config.py\<close>: the file validator, the four extractors,
  the summarization adapter and the single-file and batch entry points of the class
  \<^verbatim>\<open>DocumentProcessor\<close>.

  Conventions of the embedding.
  \<^item> A Python \<^verbatim>\<open>str\<close> is a \<^typ>\<open>string\<close>; a \<^verbatim>\<open>bytes\<close> object is a list of 8-bit words.
    Characters are the code points below 256.
  \<^item> A Python function that may raise returns \<open>pyexn + 'a\<close>, \<open>Inl\<close> carrying the exception.
    Every exception class modelled derives from \<^verbatim>\<open>Exception\<close>, so \<^verbatim>\<open>except Exception\<close>
    catches every \<open>Inl\<close>.
  \<^item> The remote model service is a function from the requests sent so far and the current
    request to the outcome of the call; the requests sent are kept in a log that every
    function calling the service takes and returns.
  \<^item> What the imported libraries do (PyMuPDF, python-docx, the codecs, the file system)
    is a parameter of the model, the record \<open>libs\<close>.
  \<^item> Calls of the logger change no result and are left out.
\<close>

subsection \<open>Python values, exceptions and strings\<close>

type_synonym byte = "8 word"
type_synonym bytes = "byte list"

datatype pyexn =
    ValueError string
  | TypeError string
  | AttributeError string
  | OtherException string string

text \<open>\<^verbatim>\<open>str(e)\<close>: the message of the exception (\<open>OtherException\<close> carries the class name
  first).\<close>

fun str_exn :: "pyexn \<Rightarrow> string" where
  "str_exn (ValueError m) = m"
| "str_exn (TypeError m) = m"
| "str_exn (AttributeError m) = m"
| "str_exn (OtherException cls m) = m"

text \<open>\<^verbatim>\<open>str(n)\<close> for an integer: its decimal digits.\<close>

fun str_nat :: "nat \<Rightarrow> string" where
  "str_nat n =
     (if n < 10 then [''0123456789'' ! n]
      else str_nat (n div 10) @ [''0123456789'' ! (n mod 10)])"

declare str_nat.simps [simp del]

definition str_int :: "int \<Rightarrow> string" where
  "str_int i = (if i < 0 then CHR ''-'' # str_nat (nat (- i)) else str_nat (nat i))"

text \<open>\<^verbatim>\<open>s.startswith(p)\<close> and \<^verbatim>\<open>sub in s\<close>.\<close>

fun startswith :: "string \<Rightarrow> string \<Rightarrow> bool" where
  "startswith s [] = True"
| "startswith [] (p # ps) = False"
| "startswith (c # s) (p # ps) = (c = p \<and> startswith s ps)"

fun contains :: "string \<Rightarrow> string \<Rightarrow> bool" where
  "contains [] sub = (sub = [])"
| "contains (c # s) sub = (startswith (c # s) sub \<or> contains s sub)"

text \<open>\<^verbatim>\<open>xs[:n]\<close>: a negative bound counts from the end.\<close>

definition slice_to :: "'a list \<Rightarrow> int \<Rightarrow> 'a list" where
  "slice_to xs n = (if n < 0 then take (nat (int (length xs) + n)) xs else take (nat n) xs)"

text \<open>\<^verbatim>\<open>str.lower()\<close> on the code points below 256: the ASCII capitals and the Latin-1
  capitals (all of \<open>0xC0..0xDE\<close> but the multiplication sign) move up by 32.\<close>

definition lower_char :: "char \<Rightarrow> char" where
  "lower_char c =
     (let n = (of_char c :: nat)
      in if (65 \<le> n \<and> n \<le> 90) \<or> (192 \<le> n \<and> n \<le> 214) \<or> (216 \<le> n \<and> n \<le> 222)
         then char_of (n + 32) else c)"

definition lower :: "string \<Rightarrow> string" where
  "lower s = map lower_char s"

text \<open>\<^verbatim>\<open>str.strip()\<close>: the white space of Python below 256 is \<open>0x09..0x0D\<close>,
  \<open>0x1C..0x20\<close>, \<open>0x85\<close> and \<open>0xA0\<close>.\<close>

definition isspace :: "char \<Rightarrow> bool" where
  "isspace c =
     (let n = (of_char c :: nat)
      in (9 \<le> n \<and> n \<le> 13) \<or> (28 \<le> n \<and> n \<le> 32) \<or> n = 133 \<or> n = 160)"

definition strip :: "string \<Rightarrow> string" where
  "strip s = rev (dropWhile isspace (rev (dropWhile isspace s)))"

subsection \<open>\<^verbatim>\<open>pathlib.Path(filename).suffix\<close>\<close>

text \<open>
  The pure POSIX path of \<^verbatim>\<open>pathlib\<close>: the path is split at \<^verbatim>\<open>/\<close>, empty components
  and \<^verbatim>\<open>.\<close> components are dropped, the name is the last component left (empty when
  there is none), and the suffix is the part of the name from its last dot, when that dot
  is neither the first nor the last character of the name.
\<close>

fun split_on :: "char \<Rightarrow> string \<Rightarrow> string list" where
  "split_on sep [] = [[]]"
| "split_on sep (c # s) =
     (if c = sep then [] # split_on sep s
      else (case split_on sep s of [] \<Rightarrow> [[c]] | w # ws \<Rightarrow> (c # w) # ws))"

definition path_tail :: "string \<Rightarrow> string list" where
  "path_tail p = filter (\<lambda>x. x \<noteq> [] \<and> x \<noteq> ''.'') (split_on CHR ''/'' p)"

definition path_name :: "string \<Rightarrow> string" where
  "path_name p = (case rev (path_tail p) of [] \<Rightarrow> [] | x # xs \<Rightarrow> x)"

text \<open>\<^verbatim>\<open>s.rfind(c)\<close>: the index of the last occurrence, \<open>-1\<close> when there is none.\<close>

definition rfind :: "string \<Rightarrow> char \<Rightarrow> int" where
  "rfind s c =
     (if c \<in> set s then int (length s) - 1 - int (length (takeWhile (\<lambda>x. x \<noteq> c) (rev s)))
      else - 1)"

definition path_suffix :: "string \<Rightarrow> string" where
  "path_suffix p =
     (let name = path_name p; i = rfind name CHR ''.''
      in if 0 < i \<and> i < int (length name) - 1 then drop (nat i) name else [])"

subsection \<open>\<^verbatim>\<open>ProcessingConfig\<close>\<close>

record ProcessingConfig =
  max_file_size :: int
  text_extract_limit :: int
  temperature :: real
  ollama_model :: string
  vision_model :: string
  allowed_extensions :: "string set"
  allowed_mime_types :: "string \<rightharpoonup> string set"

text \<open>The dataclass defaults, after \<^verbatim>\<open>__post_init__\<close>; the two model names come from the
  environment.\<close>

definition default_config :: "string \<Rightarrow> string \<Rightarrow> ProcessingConfig" where
  "default_config DEFAULT_MODEL VISION_MODEL =
     \<lparr> max_file_size = 100 * 1024 * 1024,
       text_extract_limit = 10000,
       temperature = 0,
       ollama_model = DEFAULT_MODEL,
       vision_model = VISION_MODEL,
       allowed_extensions = {''.pdf'', ''.docx'', ''.txt'', ''.jpg'', ''.jpeg'', ''.png''},
       allowed_mime_types =
         [''.pdf'' \<mapsto> {''application/pdf''},
          ''.docx'' \<mapsto>
            {''application/vnd.openxmlformats-officedocument.wordprocessingml.document''},
          ''.txt'' \<mapsto> {''text/plain'', ''text/csv''},
          ''.jpg'' \<mapsto> {''image/jpeg''},
          ''.jpeg'' \<mapsto> {''image/jpeg''},
          ''.png'' \<mapsto> {''image/png''}] \<rparr>"

subsection \<open>The libraries and the model service\<close>

text \<open>A parsed DOCX document, as python-docx presents it: the texts of the paragraphs, and
  for each table its rows, each row the texts of its cells.\<close>

record docx_document =
  paragraphs :: "string list"
  tables :: "string list list list"

text \<open>
  What the code calls outside the repository.
  \<^item> \<open>fitz_open\<close>: \<^verbatim>\<open>fitz.open(stream=..., filetype='pdf')\<close> followed by \<^verbatim>\<open>page.get_text()\<close>
    on every page, in page order; it raises on bytes that are no PDF.
  \<^item> \<open>docx_Document\<close>: \<^verbatim>\<open>Document(BytesIO(...))\<close>.
  \<^item> \<open>bytes_decode\<close>: \<^verbatim>\<open>bytes.decode(encoding)\<close> for a known encoding, \<open>None\<close> when it
    raises \<^verbatim>\<open>UnicodeDecodeError\<close>; \<open>bytes_decode_replace\<close>:
    \<^verbatim>\<open>bytes.decode('utf-8', errors='replace')\<close>, which always returns.
  \<^item> \<open>open_read\<close>: \<^verbatim>\<open>open(path, 'rb').read()\<close>.
  \<^item> \<open>set_repr\<close>: how an f-string prints a set of strings (the order of the elements is
    Python's choice).
\<close>

record libs =
  fitz_open :: "bytes \<Rightarrow> pyexn + string list"
  docx_Document :: "bytes \<Rightarrow> pyexn + docx_document"
  bytes_decode :: "string \<Rightarrow> bytes \<Rightarrow> string option"
  bytes_decode_replace :: "bytes \<Rightarrow> string"
  open_read :: "string \<Rightarrow> pyexn + bytes"
  set_repr :: "string set \<Rightarrow> string"

text \<open>
  A call of \<^verbatim>\<open>client.chat\<close> sends one user message. Its content is one of the two
  prompt templates of the source: the summarization prompt, an f-string over the document
  type and the text, or the constant vision prompt. The key \<^verbatim>\<open>images\<close> is present only
  in the vision call.
\<close>

datatype prompt = SummarizePrompt string string | VisionPrompt

record chat_request =
  req_model :: string
  req_prompt :: prompt
  req_images :: "string list option"
  req_think :: bool
  req_temperature :: real

type_synonym chat_service = "chat_request list \<Rightarrow> chat_request \<Rightarrow> pyexn + string"

text \<open>The processor object: its configuration and its client. The outcome of a call is
  \<open>Inr\<close> of \<^verbatim>\<open>result.message.content\<close>, or \<open>Inl\<close> of what the call raised.\<close>

record DocumentProcessor =
  config :: ProcessingConfig
  client_chat :: chat_service

subsection \<open>The validator\<close>

text \<open>The dictionary \<^verbatim>\<open>file_info\<close>, with its four keys \<^verbatim>\<open>filename\<close>, \<^verbatim>\<open>extension\<close>,
  \<^verbatim>\<open>size\<close> and \<^verbatim>\<open>mime_type\<close>.\<close>

record file_info =
  fi_filename :: string
  fi_extension :: string
  fi_size :: nat
  fi_mime_type :: string

definition get_expected_mime_types :: "DocumentProcessor \<Rightarrow> string \<Rightarrow> string set" where
  "get_expected_mime_types self ext =
     (case allowed_mime_types (config self) (lower ext) of
        None \<Rightarrow> {}
      | Some mimes \<Rightarrow> mimes)"

definition get_file_info :: "string \<Rightarrow> bytes \<Rightarrow> string \<Rightarrow> file_info" where
  "get_file_info filename file_bytes file_mime =
     \<lparr> fi_filename = filename,
       fi_extension = lower (path_suffix filename),
       fi_size = length file_bytes,
       fi_mime_type = file_mime \<rparr>"

text \<open>The four messages of the validator, in the order of its checks.\<close>

definition unsupported_extension :: "string \<Rightarrow> pyexn" where
  "unsupported_extension ext = ValueError (''Unsupported file extension: '' @ ext)"

definition content_mismatch :: "libs \<Rightarrow> string \<Rightarrow> string set \<Rightarrow> string \<Rightarrow> pyexn" where
  "content_mismatch L ext expected_mimes mime =
     ValueError (''File content doesn'' @ [CHR 0x27] @ ''t match extension: '' @ ext
       @ ''. Expected: '' @ set_repr L expected_mimes @ '', Got: '' @ mime)"

definition file_too_large :: "nat \<Rightarrow> int \<Rightarrow> pyexn" where
  "file_too_large sz limit =
     ValueError (''File size ('' @ str_nat sz @ '' bytes) exceeds limit (''
       @ str_int limit @ '' bytes)'')"

definition unsafe_filename :: pyexn where
  "unsafe_filename = ValueError ''Invalid filename: potential path traversal detected''"

definition validate_file ::
  "libs \<Rightarrow> DocumentProcessor \<Rightarrow> string \<Rightarrow> bytes \<Rightarrow> string \<Rightarrow> pyexn + file_info" where
  "validate_file L self filename file_bytes file_mime =
     (let info = get_file_info filename file_bytes file_mime;
          expected_mimes = get_expected_mime_types self (fi_extension info)
      in if fi_extension info \<notin> allowed_extensions (config self)
           then Inl (unsupported_extension (fi_extension info))
         else if expected_mimes \<noteq> {} \<and> fi_mime_type info \<notin> expected_mimes
           then Inl (content_mismatch L (fi_extension info) expected_mimes (fi_mime_type info))
         else if int (fi_size info) > max_file_size (config self)
           then Inl (file_too_large (fi_size info) (max_file_size (config self)))
         else if contains filename ''..'' \<or> startswith filename ''/''
           then Inl unsafe_filename
         else Inr info)"

subsection \<open>The summarization adapter\<close>

type_synonym 'a result = "(pyexn + 'a) \<times> chat_request list"

definition summarize_request :: "DocumentProcessor \<Rightarrow> string \<Rightarrow> string \<Rightarrow> chat_request" where
  "summarize_request self text doc_type =
     \<lparr> req_model = ollama_model (config self),
       req_prompt = SummarizePrompt doc_type text,
       req_images = None,
       req_think = True,
       req_temperature = temperature (config self) \<rparr>"

text \<open>The guard returns before the \<^verbatim>\<open>try\<close>; inside it, the only call that can raise is the
  one to the service, and the handler turns whatever it raises into the fallback text.\<close>

definition clean_and_summarize_text ::
  "DocumentProcessor \<Rightarrow> string \<Rightarrow> string \<Rightarrow> chat_request list \<Rightarrow> string result" where
  "clean_and_summarize_text self text doc_type sent =
     (if text = [] \<or> strip text = [] then (Inr ''No extractable text content found.'', sent)
      else
        (let req = summarize_request self text doc_type
         in case client_chat self sent req of
              Inr content \<Rightarrow> (Inr content, sent @ [req])
            | Inl e \<Rightarrow>
                (Inr (''Original content:'' @ [CHR 0x0A, CHR 0x0A]
                       @ slice_to text (text_extract_limit (config self))),
                 sent @ [req])))"

subsection \<open>The extractors\<close>

text \<open>Every extractor runs inside \<^verbatim>\<open>try: ... except Exception as e: raise ValueError(...)\<close>:
  whatever its body raises leaves it as a \<^verbatim>\<open>ValueError\<close> naming the format.\<close>

definition failed_to_process :: "string \<Rightarrow> pyexn \<Rightarrow> pyexn" where
  "failed_to_process what e = ValueError (''Failed to process '' @ what @ '': '' @ str_exn e)"

definition reraise :: "string \<Rightarrow> 'a result \<Rightarrow> 'a result" where
  "reraise what r = (case r of (Inl e, sent) \<Rightarrow> (Inl (failed_to_process what e), sent)
                             | (Inr v, sent) \<Rightarrow> (Inr v, sent))"

text \<open>The page loop of the PDF extractor: \<open>page_num\<close> is the index \<^verbatim>\<open>enumerate\<close> gives to
  the first page still to read, \<open>text\<close> what has been gathered.\<close>

definition page_delimiter :: "nat \<Rightarrow> string" where
  "page_delimiter n = [CHR 0x0A] @ ''--- Page '' @ str_nat n @ '' ---'' @ [CHR 0x0A]"

fun pdf_pages_loop :: "nat \<Rightarrow> string list \<Rightarrow> string \<Rightarrow> string" where
  "pdf_pages_loop page_num [] text = text"
| "pdf_pages_loop page_num (page_text # pages) text =
     pdf_pages_loop (page_num + 1) pages
       (if page_text \<noteq> [] then text @ page_delimiter (page_num + 1) @ page_text else text)"

definition extract_text_from_pdf_bytes ::
  "libs \<Rightarrow> DocumentProcessor \<Rightarrow> bytes \<Rightarrow> chat_request list \<Rightarrow> string result" where
  "extract_text_from_pdf_bytes L self pdf_bytes sent =
     (case fitz_open L pdf_bytes of
        Inl e \<Rightarrow> (Inl (failed_to_process ''PDF'' e), sent)
      | Inr pages \<Rightarrow>
          (let text = pdf_pages_loop 0 pages []
           in reraise ''PDF''
                (clean_and_summarize_text self
                   (slice_to text (text_extract_limit (config self))) ''PDF'' sent)))"

text \<open>\<^verbatim>\<open>sep.join(xs)\<close>, and the two loops of the DOCX extractor.\<close>

fun join :: "string \<Rightarrow> string list \<Rightarrow> string" where
  "join sep [] = []"
| "join sep [x] = x"
| "join sep (x # y # ys) = x @ sep @ join sep (y # ys)"

fun docx_paragraphs_loop :: "string list \<Rightarrow> string \<Rightarrow> string" where
  "docx_paragraphs_loop [] text = text"
| "docx_paragraphs_loop (paragraph # rest) text =
     docx_paragraphs_loop rest
       (if paragraph \<noteq> [] then text @ paragraph @ [CHR 0x0A] else text)"

fun docx_rows_loop :: "string list list \<Rightarrow> string \<Rightarrow> string" where
  "docx_rows_loop [] text = text"
| "docx_rows_loop (cells # rows) text =
     (let row_text = join '' | '' (filter (\<lambda>cell. cell \<noteq> []) cells)
      in docx_rows_loop rows
           (if row_text \<noteq> [] then text @ ''Table row: '' @ row_text @ [CHR 0x0A] else text))"

fun docx_tables_loop :: "string list list list \<Rightarrow> string \<Rightarrow> string" where
  "docx_tables_loop [] text = text"
| "docx_tables_loop (table # rest) text = docx_tables_loop rest (docx_rows_loop table text)"

definition extract_text_from_docx_bytes ::
  "libs \<Rightarrow> DocumentProcessor \<Rightarrow> bytes \<Rightarrow> chat_request list \<Rightarrow> string result" where
  "extract_text_from_docx_bytes L self docx_bytes sent =
     (case docx_Document L docx_bytes of
        Inl e \<Rightarrow> (Inl (failed_to_process ''DOCX'' e), sent)
      | Inr doc \<Rightarrow>
          (let text = docx_tables_loop (tables doc) (docx_paragraphs_loop (paragraphs doc) [])
           in reraise ''DOCX''
                (clean_and_summarize_text self
                   (strip (slice_to text (text_extract_limit (config self)))) ''DOCX'' sent)))"

text \<open>The decoding step of the plain-text extractor: the loop over the encodings leaves
  \<^verbatim>\<open>text\<close> at \<^verbatim>\<open>None\<close> when every attempt raised \<^verbatim>\<open>UnicodeDecodeError\<close>, and the
  permissive decoding follows.\<close>

definition encodings :: "string list" where
  "encodings = [''utf-8'', ''latin-1'', ''windows-1252'', ''iso-8859-1'']"

fun decode_loop :: "libs \<Rightarrow> string list \<Rightarrow> bytes \<Rightarrow> string option" where
  "decode_loop L [] txt_bytes = None"
| "decode_loop L (encoding # rest) txt_bytes =
     (case bytes_decode L encoding txt_bytes of
        Some text \<Rightarrow> Some text
      | None \<Rightarrow> decode_loop L rest txt_bytes)"

definition decode_txt_bytes :: "libs \<Rightarrow> bytes \<Rightarrow> pyexn + string" where
  "decode_txt_bytes L txt_bytes =
     (case decode_loop L encodings txt_bytes of
        Some text \<Rightarrow> Inr text
      | None \<Rightarrow> Inr (bytes_decode_replace L txt_bytes))"

definition extract_text_from_txt_bytes ::
  "libs \<Rightarrow> DocumentProcessor \<Rightarrow> bytes \<Rightarrow> chat_request list \<Rightarrow> string result" where
  "extract_text_from_txt_bytes L self txt_bytes sent =
     (case decode_txt_bytes L txt_bytes of
        Inl e \<Rightarrow> (Inl (failed_to_process ''text file'' e), sent)
      | Inr text \<Rightarrow>
          reraise ''text file''
            (clean_and_summarize_text self
               (slice_to text (text_extract_limit (config self))) ''TXT'' sent))"

text \<open>\<^verbatim>\<open>base64.b64encode(...).decode('utf-8')\<close>: three bytes give four characters of the
  standard alphabet, and a last group of one or two bytes is padded with \<^verbatim>\<open>=\<close>.\<close>

definition b64_char :: "nat \<Rightarrow> char" where
  "b64_char i =
     ''ABCDEFGHIJKLMNOPQRSTUVWXYZabcdefghijklmnopqrstuvwxyz0123456789+/'' ! (i mod 64)"

fun b64encode :: "bytes \<Rightarrow> string" where
  "b64encode [] = []"
| "b64encode [a] =
     (let n = unat a * 65536
      in [b64_char (n div 262144), b64_char (n div 4096), CHR ''='', CHR ''=''])"
| "b64encode [a, b] =
     (let n = unat a * 65536 + unat b * 256
      in [b64_char (n div 262144), b64_char (n div 4096), b64_char (n div 64), CHR ''=''])"
| "b64encode (a # b # c # rest) =
     (let n = unat a * 65536 + unat b * 256 + unat c
      in [b64_char (n div 262144), b64_char (n div 4096), b64_char (n div 64), b64_char n]
         @ b64encode rest)"

definition vision_request :: "DocumentProcessor \<Rightarrow> bytes \<Rightarrow> chat_request" where
  "vision_request self image_bytes =
     \<lparr> req_model = vision_model (config self),
       req_prompt = VisionPrompt,
       req_images = Some [b64encode image_bytes],
       req_think = True,
       req_temperature = temperature (config self) \<rparr>"

definition extract_content_from_image_bytes ::
  "DocumentProcessor \<Rightarrow> bytes \<Rightarrow> chat_request list \<Rightarrow> string result" where
  "extract_content_from_image_bytes self image_bytes sent =
     (let req = vision_request self image_bytes
      in case client_chat self sent req of
           Inl e \<Rightarrow> (Inl (failed_to_process ''image'' e), sent @ [req])
         | Inr content \<Rightarrow>
             reraise ''image'' (clean_and_summarize_text self content ''image'' (sent @ [req])))"

subsection \<open>The single-file entry point\<close>

text \<open>The dictionary \<^verbatim>\<open>file_processor_map\<close> of the constructor, its values named after the
  methods they are.\<close>

datatype processor =
    Extract_text_from_pdf_bytes
  | Extract_text_from_docx_bytes
  | Extract_text_from_txt_bytes
  | Extract_content_from_image_bytes

definition file_processor_map :: "string \<rightharpoonup> processor" where
  "file_processor_map =
     [''.pdf'' \<mapsto> Extract_text_from_pdf_bytes,
      ''.docx'' \<mapsto> Extract_text_from_docx_bytes,
      ''.txt'' \<mapsto> Extract_text_from_txt_bytes,
      ''.jpg'' \<mapsto> Extract_content_from_image_bytes,
      ''.jpeg'' \<mapsto> Extract_content_from_image_bytes,
      ''.png'' \<mapsto> Extract_content_from_image_bytes]"

fun run_processor ::
  "libs \<Rightarrow> DocumentProcessor \<Rightarrow> processor \<Rightarrow> bytes \<Rightarrow> chat_request list \<Rightarrow> string result" where
  "run_processor L self Extract_text_from_pdf_bytes file_bytes sent =
     extract_text_from_pdf_bytes L self file_bytes sent"
| "run_processor L self Extract_text_from_docx_bytes file_bytes sent =
     extract_text_from_docx_bytes L self file_bytes sent"
| "run_processor L self Extract_text_from_txt_bytes file_bytes sent =
     extract_text_from_txt_bytes L self file_bytes sent"
| "run_processor L self Extract_content_from_image_bytes file_bytes sent =
     extract_content_from_image_bytes self file_bytes sent"

text \<open>The handler of \<^verbatim>\<open>process_document_async\<close> logs and re-raises the exception as it
  is.\<close>

definition process_document_async ::
  "libs \<Rightarrow> DocumentProcessor \<Rightarrow> string \<Rightarrow> bytes \<Rightarrow> string \<Rightarrow> chat_request list
     \<Rightarrow> string result" where
  "process_document_async L self filename file_bytes file_mime sent =
     (if filename = [] \<or> file_bytes = []
        then (Inl (ValueError ''Filename and file_bytes are required''), sent)
      else
        (case validate_file L self filename file_bytes file_mime of
           Inl e \<Rightarrow> (Inl e, sent)
         | Inr info \<Rightarrow>
             (case file_processor_map (fi_extension info) of
                None \<Rightarrow> (Inl (unsupported_extension (fi_extension info)), sent)
              | Some processor \<Rightarrow> run_processor L self processor file_bytes sent)))"

subsection \<open>Calls and their arguments\<close>

text \<open>
  The batch entry points call methods with fewer or more arguments than the methods
  declare. Python binds the arguments when the call is evaluated, before any of the body
  runs (for an \<^verbatim>\<open>async def\<close>, before the coroutine object exists), and raises
  \<^verbatim>\<open>TypeError\<close> when the count is wrong. So the values passed are kept as they are
  (\<open>pyval\<close>), and each method called this way has a binding function.

  A file object of the chat framework has a name, a MIME type that may be \<^verbatim>\<open>None\<close>, a
  content that may be bytes, and a path that may be a string.
\<close>

datatype content_value = NoContent | BytesContent bytes | StrContent string

record cl_File =
  cl_name :: string
  cl_mime :: "string option"
  cl_content :: content_value
  cl_path :: "string option"

datatype pyval =
    VNone
  | VStr string
  | VBytes bytes
  | VFile cl_File
  | VCoroutine "pyval list"

definition quote :: "string \<Rightarrow> string" where
  "quote s = [CHR 0x27] @ s @ [CHR 0x27]"

text \<open>The message of the \<^verbatim>\<open>TypeError\<close> for a bound method whose parameters after
  \<^verbatim>\<open>self\<close> are \<open>params\<close>, none with a default, called with \<open>nargs\<close> positional
  arguments (CPython 3.10 and later, which print the qualified name). The counts in the
  message include \<^verbatim>\<open>self\<close>.\<close>

fun missing_names :: "string list \<Rightarrow> string" where
  "missing_names [] = []"
| "missing_names [a] = quote a"
| "missing_names [a, b] = quote a @ '' and '' @ quote b"
| "missing_names (a # b # c # rest) =
     join '', '' (map quote (butlast (a # b # c # rest))) @ '', and ''
       @ quote (last (a # b # c # rest))"

definition arity_error :: "string \<Rightarrow> string list \<Rightarrow> nat \<Rightarrow> pyexn" where
  "arity_error qualname params nargs =
     (if nargs < length params then
        (let missing = drop nargs params
         in TypeError (qualname @ ''() missing '' @ str_nat (length missing)
              @ '' required positional argument'' @ (if length missing = 1 then [] else ''s'')
              @ '': '' @ missing_names missing))
      else
        TypeError (qualname @ ''() takes '' @ str_nat (length params + 1)
          @ '' positional argument'' @ (if length params + 1 = 1 then [] else ''s'')
          @ '' but '' @ str_nat (nargs + 1) @ (if nargs + 1 = 1 then '' was'' else '' were'')
          @ '' given''))"

text \<open>\<^verbatim>\<open>process_document_async(self, filename, file_bytes, file_mime)\<close>.\<close>

fun bind_process_document_async :: "pyval list \<Rightarrow> pyexn + pyval \<times> pyval \<times> pyval" where
  "bind_process_document_async [filename, file_bytes, file_mime] =
     Inr (filename, file_bytes, file_mime)"
| "bind_process_document_async args =
     Inl (arity_error ''DocumentProcessor.process_document_async''
            [''filename'', ''file_bytes'', ''file_mime''] (length args))"

text \<open>\<^verbatim>\<open>process_single_file_async(self, file)\<close>.\<close>

fun bind_process_single_file_async :: "pyval list \<Rightarrow> pyexn + pyval" where
  "bind_process_single_file_async [file] = Inr file"
| "bind_process_single_file_async args =
     Inl (arity_error ''DocumentProcessor.process_single_file_async'' [''file''] (length args))"

subsection \<open>Reading a file object\<close>

definition read_bytes :: "libs \<Rightarrow> cl_File \<Rightarrow> pyexn + bytes" where
  "read_bytes L file =
     (case cl_content file of
        BytesContent content \<Rightarrow> Inr content
      | _ \<Rightarrow>
          (case cl_path file of
             Some path \<Rightarrow>
               (if path \<noteq> [] then open_read L path
                else Inl (ValueError ''File content is not available as bytes or valid path''))
           | None \<Rightarrow> Inl (ValueError ''File content is not available as bytes or valid path'')))"

text \<open>\<^verbatim>\<open>str(file.mime)\<close>.\<close>

definition str_optional :: "string option \<Rightarrow> string" where
  "str_optional v = (case v of None \<Rightarrow> ''None'' | Some s \<Rightarrow> s)"

definition no_attribute :: "string \<Rightarrow> string \<Rightarrow> pyexn" where
  "no_attribute cls attr =
     AttributeError (quote cls @ '' object has no attribute '' @ quote attr)"

text \<open>The body of \<^verbatim>\<open>process_single_file_async\<close>, on the value bound to \<^verbatim>\<open>file\<close>: only a
  file object has the attribute \<^verbatim>\<open>name\<close>.\<close>

fun process_single_file_async ::
  "libs \<Rightarrow> DocumentProcessor \<Rightarrow> pyval \<Rightarrow> chat_request list \<Rightarrow> string result" where
  "process_single_file_async L self VNone sent = (Inl (ValueError ''File is None''), sent)"
| "process_single_file_async L self (VFile file) sent =
     (case read_bytes L file of
        Inl e \<Rightarrow> (Inl e, sent)
      | Inr file_bytes \<Rightarrow>
          process_document_async L self (cl_name file) file_bytes
            (str_optional (cl_mime file)) sent)"
| "process_single_file_async L self (VStr s) sent = (Inl (no_attribute ''str'' ''name''), sent)"
| "process_single_file_async L self (VBytes b) sent =
     (Inl (no_attribute ''bytes'' ''name''), sent)"
| "process_single_file_async L self (VCoroutine args) sent =
     (Inl (no_attribute ''coroutine'' ''name''), sent)"

subsection \<open>The batch entry points\<close>

text \<open>
  A dictionary that is iterated is an association list with distinct keys, in insertion
  order; \<^verbatim>\<open>results[filename] = v\<close> is \<^const>\<open>AList.update\<close>, which replaces the value of a
  key that is there and appends a new key.

  \<^verbatim>\<open>batch_process_documents\<close> is not a coroutine: it calls \<^verbatim>\<open>process_document_async\<close>
  with two arguments and stores what the call returns, which would be a coroutine object
  never awaited, or the error string when the call raises.
\<close>

definition error_processing :: "string \<Rightarrow> pyexn \<Rightarrow> string" where
  "error_processing filename e = ''Error processing '' @ filename @ '': '' @ str_exn e"

fun batch_process_documents_loop ::
  "(string \<times> bytes) list \<Rightarrow> (string \<times> pyval) list \<Rightarrow> (string \<times> pyval) list" where
  "batch_process_documents_loop [] results = results"
| "batch_process_documents_loop ((filename, file_bytes) # rest) results =
     batch_process_documents_loop rest
       (case bind_process_document_async [VStr filename, VBytes file_bytes] of
          Inr (a, b, c) \<Rightarrow> AList.update filename (VCoroutine [a, b, c]) results
        | Inl e \<Rightarrow> AList.update filename (VStr (error_processing filename e)) results)"

definition batch_process_documents :: "(string \<times> bytes) list \<Rightarrow> (string \<times> pyval) list" where
  "batch_process_documents file_data = batch_process_documents_loop file_data []"

text \<open>
  \<^verbatim>\<open>batch_process_documents_async\<close> has two loops. The first creates one task per entry;
  the call \<^verbatim>\<open>self.process_single_file_async(filename, file_bytes)\<close> is evaluated there,
  outside any \<^verbatim>\<open>try\<close>, so an exception of the call leaves the whole function. The second
  awaits the tasks in order, each inside \<^verbatim>\<open>try ... except Exception\<close>. A task is the value
  bound to \<^verbatim>\<open>file\<close>; the tasks are run one after the other, in the order they are awaited.
\<close>

fun create_tasks ::
  "(string \<times> bytes) list \<Rightarrow> (string \<times> pyval) list \<Rightarrow> pyexn + (string \<times> pyval) list" where
  "create_tasks [] tasks = Inr tasks"
| "create_tasks ((filename, file_bytes) # rest) tasks =
     (case bind_process_single_file_async [VStr filename, VBytes file_bytes] of
        Inl e \<Rightarrow> Inl e
      | Inr file \<Rightarrow> create_tasks rest (tasks @ [(filename, file)]))"

fun await_tasks ::
  "libs \<Rightarrow> DocumentProcessor \<Rightarrow> (string \<times> pyval) list \<Rightarrow> (string \<times> string) list
     \<Rightarrow> chat_request list \<Rightarrow> (string \<times> string) list \<times> chat_request list" where
  "await_tasks L self [] results sent = (results, sent)"
| "await_tasks L self ((filename, file) # rest) results sent =
     (case process_single_file_async L self file sent of
        (Inr content, sent') \<Rightarrow>
          await_tasks L self rest (AList.update filename content results) sent'
      | (Inl e, sent') \<Rightarrow>
          await_tasks L self rest
            (AList.update filename (error_processing filename e) results) sent')"

definition batch_process_documents_async ::
  "libs \<Rightarrow> DocumentProcessor \<Rightarrow> (string \<times> bytes) list \<Rightarrow> chat_request list
     \<Rightarrow> (string \<times> string) list result" where
  "batch_process_documents_async L self file_data sent =
     (case create_tasks file_data [] of
        Inl e \<Rightarrow> (Inl e, sent)
      | Inr tasks \<Rightarrow>
          (case await_tasks L self tasks [] sent of
             (results, sent') \<Rightarrow> (Inr results, sent')))"

subsection \<open>Example inputs\<close>

text \<open>A configuration with a small size bound and a small extraction limit, four model
  services (one that answers, one that is down, one whose vision model answers with white
  space only, one whose text model is missing) and stand-ins for the libraries. The
  stand-in codec table decodes ASCII bytes under UTF-8 and every byte under Latin-1.\<close>

definition example_config :: ProcessingConfig where
  "example_config =
     (default_config ''llama3'' ''llava'') \<lparr> max_file_size := 4, text_extract_limit := 5 \<rparr>"

definition answering_service :: chat_service where
  "answering_service sent req =
     (case req_prompt req of
        VisionPrompt \<Rightarrow> Inr ''A bar chart.''
      | SummarizePrompt doc_type text \<Rightarrow> Inr (''Summary of the '' @ doc_type))"

definition failing_service :: chat_service where
  "failing_service sent req = Inl (OtherException ''ConnectionError'' ''connection refused'')"

definition blank_vision_service :: chat_service where
  "blank_vision_service sent req =
     (case req_prompt req of
        VisionPrompt \<Rightarrow> Inr [CHR '' '', CHR 0x0A]
      | SummarizePrompt doc_type text \<Rightarrow> Inr (''Summary of the '' @ doc_type))"

definition summary_failing_service :: chat_service where
  "summary_failing_service sent req =
     (case req_prompt req of
        VisionPrompt \<Rightarrow> Inr ''A bar chart.''
      | SummarizePrompt doc_type text \<Rightarrow>
          Inl (OtherException ''ResponseError'' ''model not found''))"

definition example_decode :: "string \<Rightarrow> bytes \<Rightarrow> string option" where
  "example_decode encoding bs =
     (if encoding = ''utf-8'' then
        (if list_all (\<lambda>b. b < 0x80) bs then Some (map (\<lambda>b. char_of (unat b)) bs) else None)
      else if encoding = ''latin-1'' \<or> encoding = ''iso-8859-1'' then
        Some (map (\<lambda>b. char_of (unat b)) bs)
      else None)"

definition example_libs :: libs where
  "example_libs =
     \<lparr> fitz_open = (\<lambda>b. Inr [''Alpha'', [], ''Gamma'', [], []]),
       docx_Document = (\<lambda>b. Inr \<lparr> paragraphs = [''Hello''], tables = [[[''A'', ''B'']]] \<rparr>),
       bytes_decode = example_decode,
       bytes_decode_replace = (\<lambda>b. ''?''),
       open_read = (\<lambda>p. Inl (OtherException ''FileNotFoundError'' p)),
       set_repr = (\<lambda>s. ''{...}'') \<rparr>"

definition example_processor :: DocumentProcessor where
  "example_processor = \<lparr> config = example_config, client_chat = answering_service \<rparr>"

definition failing_processor :: DocumentProcessor where
  "failing_processor = \<lparr> config = example_config, client_chat = failing_service \<rparr>"

definition blank_vision_processor :: DocumentProcessor where
  "blank_vision_processor =
     \<lparr> config = example_config, client_chat = blank_vision_service \<rparr>"

definition summary_failing_processor :: DocumentProcessor where
  "summary_failing_processor =
     \<lparr> config = example_config, client_chat = summary_failing_service \<rparr>"

text \<open>The pages of a PDF that get a delimiter, in the words of the specification: the
  pages numbered from 1, those with empty text left out.\<close>

definition pages_with_text :: "string list \<Rightarrow> (nat \<times> string) list" where
  "pages_with_text pages =
     filter (\<lambda>(n, page_text). page_text \<noteq> []) (zip [1..<Suc (length pages)] pages)"

section \<open>Properties\<close>

subsection \<open>Strings\<close>

text \<open>\<open>startswith\<close> and \<open>contains\<close> are the prefix and the substring relation; a string
  strips to nothing exactly when all of it is white space.\<close>

lemma startswith_iff: "startswith s p \<longleftrightarrow> (\<exists>q. s = p @ q)"
  by (induction s p rule: startswith.induct) auto

lemma contains_iff: "contains s sub \<longleftrightarrow> (\<exists>p q. s = p @ sub @ q)"
proof (induction s)
  case Nil
  then show ?case by auto
next
  case (Cons c s)
  show ?case
  proof
    assume "contains (c # s) sub"
    then consider "startswith (c # s) sub" | "contains s sub" by auto
    then show "\<exists>p q. c # s = p @ sub @ q"
    proof cases
      case 1
      then obtain q where "c # s = sub @ q" by (auto simp: startswith_iff)
      then have "c # s = [] @ sub @ q" by simp
      then show ?thesis by blast
    next
      case 2
      then obtain p q where "s = p @ sub @ q" using Cons.IH by blast
      then have "c # s = (c # p) @ sub @ q" by simp
      then show ?thesis by blast
    qed
  next
    assume "\<exists>p q. c # s = p @ sub @ q"
    then obtain p q where pq: "c # s = p @ sub @ q" by blast
    show "contains (c # s) sub"
    proof (cases p)
      case Nil
      with pq have "startswith (c # s) sub" by (auto simp: startswith_iff)
      then show ?thesis by simp
    next
      case (Cons a p')
      with pq have "s = p' @ sub @ q" by simp
      then have "contains s sub" using Cons.IH by blast
      then show ?thesis by simp
    qed
  qed
qed

lemma strip_Nil_iff: "strip s = [] \<longleftrightarrow> list_all isspace s"
proof
  assume "list_all isspace s"
  then have "dropWhile isspace s = []" by (simp add: list_all_iff dropWhile_eq_Nil_conv)
  then show "strip s = []" by (simp only: strip_def rev.simps dropWhile.simps)
next
  assume a: "strip s = []"
  show "list_all isspace s"
  proof (rule ccontr)
    assume "\<not> list_all isspace s"
    then have ne: "dropWhile isspace s \<noteq> []" by (simp add: list_all_iff dropWhile_eq_Nil_conv)
    then have "\<not> isspace (hd (dropWhile isspace s))" by (rule hd_dropWhile)
    moreover from a have "\<forall>x \<in> set (dropWhile isspace s). isspace x"
      by (simp add: strip_def dropWhile_eq_Nil_conv)
    ultimately show False using ne by auto
  qed
qed

lemma slice_to_nonneg: "0 \<le> n \<Longrightarrow> slice_to xs n = take (nat n) xs"
  by (simp add: slice_to_def)

subsection \<open>The example inputs evaluated\<close>

lemma suffix_notes: "lower (path_suffix ''notes.txt'') = ''.txt''"
  by code_simp

lemma suffix_dotdot: "lower (path_suffix ''notes..txt'') = ''.txt''"
  by code_simp

lemma suffix_root: "lower (path_suffix ''/srv/a.txt'') = ''.txt''"
  by code_simp

lemma suffix_passwd: "lower (path_suffix ''/etc/passwd'') = []"
  by code_simp

lemma example_txt_mimes:
  "get_expected_mime_types example_processor ''.txt'' = {''text/plain'', ''text/csv''}"
  by (simp add: get_expected_mime_types_def example_processor_def example_config_def
      default_config_def lower_def lower_char_def)

lemma example_allowed:
  "allowed_extensions (config example_processor)
     = {''.pdf'', ''.docx'', ''.txt'', ''.jpg'', ''.jpeg'', ''.png''}"
  by (simp add: example_processor_def example_config_def default_config_def)

lemma example_max: "max_file_size (config example_processor) = 4"
  by (simp add: example_processor_def example_config_def default_config_def)

lemma example_limit: "text_extract_limit (config failing_processor) = 5"
  by (simp add: failing_processor_def example_config_def default_config_def)

lemma arity_single_file:
  "arity_error ''DocumentProcessor.process_single_file_async'' [''file''] 2 =
     TypeError ''DocumentProcessor.process_single_file_async() takes 2 positional arguments but 3 were given''"
  by code_simp

lemma arity_document:
  "arity_error ''DocumentProcessor.process_document_async''
       [''filename'', ''file_bytes'', ''file_mime''] 2 =
     TypeError (''DocumentProcessor.process_document_async() missing 1 required positional argument: ''
                  @ [CHR 0x27] @ ''file_mime'' @ [CHR 0x27])"
  by code_simp

subsection \<open>The summarization adapter\<close>

text \<open>The adapter returns on every input: the guard, the answer of the service and the
  fallback are its three exits.\<close>

lemma summarizer_returns:
  "\<exists>out sent'. clean_and_summarize_text self text doc_type sent = (Inr out, sent')"
  by (simp add: clean_and_summarize_text_def Let_def split: sum.split)

lemma reraise_Inr: "reraise what (Inr v, sent) = (Inr v, sent)"
  by (simp add: reraise_def)

lemma reraise_summarizer:
  "reraise what (clean_and_summarize_text self text doc_type sent)
     = clean_and_summarize_text self text doc_type sent"
proof -
  obtain out sent' where "clean_and_summarize_text self text doc_type sent = (Inr out, sent')"
    using summarizer_returns by blast
  then show ?thesis by (simp add: reraise_Inr)
qed

text \<open>The adapter sends a request exactly when the text has a character that is not white
  space.\<close>

lemma summarizer_calls_iff:
  "snd (clean_and_summarize_text self text doc_type sent) \<noteq> sent \<longleftrightarrow> \<not> list_all isspace text"
  by (auto simp: clean_and_summarize_text_def Let_def strip_Nil_iff split: sum.split)

text \<open>
  \<^bold>\<open>Claim C5.\<close> For every text that is empty or consists of white space only, the adapter
  returns the fixed message \<^verbatim>\<open>No extractable text content found.\<close> and sends nothing to
  the service: the log of requests is returned as it was.
\<close>

theorem summarizer_blank:
  "text = [] \<or> list_all isspace text \<Longrightarrow>
     clean_and_summarize_text self text doc_type sent =
       (Inr ''No extractable text content found.'', sent)"
  by (auto simp: clean_and_summarize_text_def strip_Nil_iff)

theorem summarizer_blank_witness:
  "clean_and_summarize_text example_processor [] ''TXT'' []
     = (Inr ''No extractable text content found.'', [])
   \<and> clean_and_summarize_text example_processor [CHR '' '', CHR 0x0A, CHR 0x09] ''TXT'' []
     = (Inr ''No extractable text content found.'', [])"
proof -
  have ws: "list_all isspace [CHR '' '', CHR 0x0A, CHR 0x09]"
    by (simp add: isspace_def)
  show ?thesis
    using summarizer_blank [of "[]" example_processor "''TXT''" "[]"]
      summarizer_blank [of "[CHR '' '', CHR 0x0A, CHR 0x09]" example_processor "''TXT''" "[]"] ws
    by simp
qed

text \<open>
  \<^bold>\<open>Claim C4.\<close> As stated the claim fails: a text of one space is not empty, but the
  guard returns the fixed message before the service is called, so with the service down
  the result is that message and not the fallback.
\<close>

theorem summarizer_fallback_counterexample:
  "[CHR '' ''] \<noteq> []
   \<and> client_chat failing_processor [] (summarize_request failing_processor [CHR '' ''] ''TXT'')
       = Inl (OtherException ''ConnectionError'' ''connection refused'')
   \<and> clean_and_summarize_text failing_processor [CHR '' ''] ''TXT'' []
       = (Inr ''No extractable text content found.'', [])"
  by (simp add: failing_processor_def failing_service_def clean_and_summarize_text_def
      strip_def isspace_def)

text \<open>
  \<^bold>\<open>Claim C4, amended.\<close> For every text with a character that is not white space, when
  the service fails with any exception on the request of the adapter, the adapter raises
  nothing and returns the header \<^verbatim>\<open>Original content:\<close>, two line feeds, and the slice
  \<^verbatim>\<open>text[:N]\<close> for the configured extraction limit \<open>N\<close>, which is the first \<open>N\<close>
  characters of the text whenever \<open>N\<close> is not negative.
\<close>

theorem summarizer_fallback:
  assumes "\<not> list_all isspace text"
    and "client_chat self sent (summarize_request self text doc_type) = Inl e"
  shows "clean_and_summarize_text self text doc_type sent =
           (Inr (''Original content:'' @ [CHR 0x0A, CHR 0x0A]
                   @ slice_to text (text_extract_limit (config self))),
            sent @ [summarize_request self text doc_type])
         \<and> (0 \<le> text_extract_limit (config self) \<longrightarrow>
              slice_to text (text_extract_limit (config self))
                = take (nat (text_extract_limit (config self))) text)"
proof -
  from assms(1) have "text \<noteq> []" and "strip text \<noteq> []"
    by (auto simp: strip_Nil_iff)
  with assms(2) show ?thesis
    by (simp add: clean_and_summarize_text_def Let_def slice_to_nonneg)
qed

theorem summarizer_fallback_witness:
  "clean_and_summarize_text failing_processor ''hello world'' ''TXT'' []
     = (Inr (''Original content:'' @ [CHR 0x0A, CHR 0x0A] @ ''hello''),
        [summarize_request failing_processor ''hello world'' ''TXT''])"
proof -
  have nb: "\<not> list_all isspace ''hello world''"
    by (simp add: isspace_def)
  have fails:
    "client_chat failing_processor [] (summarize_request failing_processor ''hello world'' ''TXT'')
       = Inl (OtherException ''ConnectionError'' ''connection refused'')"
    by (simp add: failing_processor_def failing_service_def)
  show ?thesis
    using summarizer_fallback [OF nb fails]
    by (simp add: example_limit)
qed

subsection \<open>The validator\<close>

text \<open>
  \<^bold>\<open>Claim C6.\<close> As stated the claim fails: the size is the third check, and an oversized file
  with an extension outside the allow-set is rejected for its extension.
\<close>

theorem validate_file_size_counterexample:
  "max_file_size (config example_processor) < int (length [0x4D, 0x5A, 0x90, 0x00, 0x03 :: byte])
   \<and> validate_file example_libs example_processor ''setup.exe'' [0x4D, 0x5A, 0x90, 0x00, 0x03]
        ''application/octet-stream'' = Inl (unsupported_extension ''.exe'')
   \<and> unsupported_extension ''.exe'' \<noteq> file_too_large 5 4"
proof -
  have ext: "lower (path_suffix ''setup.exe'') = ''.exe''"
    by code_simp
  have "validate_file example_libs example_processor ''setup.exe'' [0x4D, 0x5A, 0x90, 0x00, 0x03]
        ''application/octet-stream'' = Inl (unsupported_extension ''.exe'')"
    by (simp add: validate_file_def get_file_info_def ext example_allowed)
  moreover have "unsupported_extension ''.exe'' \<noteq> file_too_large 5 4"
    by (simp add: unsupported_extension_def file_too_large_def)
  ultimately show ?thesis
    by (simp add: example_max)
qed

text \<open>
  \<^bold>\<open>Claim C6, amended.\<close> Every file longer than the configured maximum fails validation. When
  its extension is allowed and its declared content type is accepted, it fails with the
  size error; and a file of exactly the maximum length with an allowed extension, an
  accepted content type and a safe name passes, with its \<open>file_info\<close>.
\<close>

theorem validate_file_size_bound:
  "(max_file_size (config self) < int (length file_bytes) \<longrightarrow>
      (\<exists>e. validate_file L self filename file_bytes file_mime = Inl e))
   \<and> (lower (path_suffix filename) \<in> allowed_extensions (config self)
        \<and> (get_expected_mime_types self (lower (path_suffix filename)) = {}
             \<or> file_mime \<in> get_expected_mime_types self (lower (path_suffix filename)))
      \<longrightarrow>
        (max_file_size (config self) < int (length file_bytes) \<longrightarrow>
           validate_file L self filename file_bytes file_mime
             = Inl (file_too_large (length file_bytes) (max_file_size (config self))))
        \<and> (int (length file_bytes) = max_file_size (config self)
             \<and> \<not> contains filename ''..'' \<and> \<not> startswith filename ''/'' \<longrightarrow>
           validate_file L self filename file_bytes file_mime
             = Inr (get_file_info filename file_bytes file_mime)))"
  by (auto simp: validate_file_def Let_def get_file_info_def)

theorem validate_file_size_bound_witness:
  "validate_file example_libs example_processor ''notes.txt'' [0x68, 0x65, 0x6C, 0x6C, 0x6F]
       ''text/plain'' = Inl (file_too_large 5 4)
   \<and> validate_file example_libs example_processor ''notes.txt'' [0x68, 0x65, 0x6C, 0x6C]
       ''text/plain''
     = Inr \<lparr> fi_filename = ''notes.txt'', fi_extension = ''.txt'', fi_size = 4,
             fi_mime_type = ''text/plain'' \<rparr>"
proof -
  have ext: "lower (path_suffix ''notes.txt'') \<in> allowed_extensions (config example_processor)"
    by (simp add: suffix_notes example_allowed)
  have mime: "''text/plain'' \<in> get_expected_mime_types example_processor (lower (path_suffix ''notes.txt''))"
    by (simp add: suffix_notes example_txt_mimes)
  have safe: "\<not> contains ''notes.txt'' ''..'' \<and> \<not> startswith ''notes.txt'' ''/''"
    by simp
  show ?thesis
    using validate_file_size_bound [of example_processor "[0x68, 0x65, 0x6C, 0x6C, 0x6F]"
        example_libs "''notes.txt''" "''text/plain''"]
      validate_file_size_bound [of example_processor "[0x68, 0x65, 0x6C, 0x6C]"
        example_libs "''notes.txt''" "''text/plain''"]
      ext mime safe
    by (simp add: example_max get_file_info_def suffix_notes eval_nat_numeral)
qed

text \<open>
  \<^bold>\<open>Claim C7.\<close> As stated the claim fails: the file name is the last check, and
  \<^verbatim>\<open>/etc/passwd\<close> has no suffix, so it is rejected for its extension.
\<close>

theorem validate_file_unsafe_name_counterexample:
  "startswith ''/etc/passwd'' ''/''
   \<and> validate_file example_libs example_processor ''/etc/passwd'' [0x68, 0x69] ''text/plain''
       = Inl (unsupported_extension [])
   \<and> unsupported_extension [] \<noteq> unsafe_filename"
  by (simp add: validate_file_def get_file_info_def suffix_passwd example_allowed
      unsupported_extension_def unsafe_filename_def)

text \<open>
  \<^bold>\<open>Claim C7, amended.\<close> Every file name that contains \<^verbatim>\<open>..\<close> or starts with \<^verbatim>\<open>/\<close> fails
  validation; it fails with the unsafe-name error when the extension, the content type and
  the size pass their checks.
\<close>

theorem validate_file_unsafe_name:
  "contains filename ''..'' \<or> startswith filename ''/'' \<Longrightarrow>
     (\<exists>e. validate_file L self filename file_bytes file_mime = Inl e)
     \<and> (lower (path_suffix filename) \<in> allowed_extensions (config self)
          \<and> (get_expected_mime_types self (lower (path_suffix filename)) = {}
               \<or> file_mime \<in> get_expected_mime_types self (lower (path_suffix filename)))
          \<and> int (length file_bytes) \<le> max_file_size (config self)
        \<longrightarrow> validate_file L self filename file_bytes file_mime = Inl unsafe_filename)"
  by (auto simp: validate_file_def Let_def get_file_info_def)

theorem validate_file_unsafe_name_witness:
  "validate_file example_libs example_processor ''notes..txt'' [0x68, 0x69] ''text/plain''
     = Inl unsafe_filename
   \<and> validate_file example_libs example_processor ''/srv/a.txt'' [0x68, 0x69] ''text/csv''
     = Inl unsafe_filename"
proof -
  have c1: "contains ''notes..txt'' ''..'' \<or> startswith ''notes..txt'' ''/''" by simp
  have c2: "contains ''/srv/a.txt'' ''..'' \<or> startswith ''/srv/a.txt'' ''/''" by simp
  show ?thesis
    using validate_file_unsafe_name [OF c1, of example_libs example_processor "[0x68, 0x69]" "''text/plain''"]
      validate_file_unsafe_name [OF c2, of example_libs example_processor "[0x68, 0x69]" "''text/csv''"]
    by (simp add: suffix_dotdot suffix_root example_allowed example_txt_mimes example_max)
qed

subsection \<open>The PDF extractor\<close>

lemma pdf_pages_loop_from:
  "pdf_pages_loop k pages acc =
     acc @ concat (map (\<lambda>(n, page_text). page_delimiter n @ page_text)
       (filter (\<lambda>(n, page_text). page_text \<noteq> []) (zip [Suc k..<Suc k + length pages] pages)))"
proof (induction pages arbitrary: k acc)
  case Nil
  then show ?case by simp
next
  case (Cons p ps)
  have "[Suc k..<Suc k + length (p # ps)] = Suc k # [Suc (Suc k)..<Suc k + length (p # ps)]"
    by (rule upt_conv_Cons) simp
  moreover have "Suc k + length (p # ps) = Suc (Suc k) + length ps"
    by simp
  ultimately have upt:
    "[Suc k..<Suc k + length (p # ps)] = Suc k # [Suc (Suc k)..<Suc (Suc k) + length ps]"
    by (simp only:)
  have step: "pdf_pages_loop k (p # ps) acc =
      pdf_pages_loop (Suc k) ps (if p \<noteq> [] then acc @ page_delimiter (Suc k) @ p else acc)"
    by simp
  show ?case
    unfolding step upt Cons.IH by simp
qed

text \<open>
  \<^bold>\<open>Claim C8.\<close> The text the page loop gathers is, page after page in source order, the
  delimiter with the 1-based page number followed by the text of the page, for exactly the
  pages whose text is not empty. For five pages with text on pages 1 and 3 only, it is the
  delimiter of page 1, the first text, the delimiter of page 3 and the third text.
\<close>

theorem pdf_page_delimiters:
  "pdf_pages_loop 0 pages [] =
     concat (map (\<lambda>(n, page_text). page_delimiter n @ page_text) (pages_with_text pages))
   \<and> (t1 \<noteq> [] \<and> t3 \<noteq> [] \<longrightarrow>
        pdf_pages_loop 0 [t1, [], t3, [], []] []
          = [CHR 0x0A] @ ''--- Page 1 ---'' @ [CHR 0x0A] @ t1
            @ [CHR 0x0A] @ ''--- Page 3 ---'' @ [CHR 0x0A] @ t3)"
proof
  show "pdf_pages_loop 0 pages [] =
     concat (map (\<lambda>(n, page_text). page_delimiter n @ page_text) (pages_with_text pages))"
    by (simp add: pdf_pages_loop_from pages_with_text_def)
  have d1: "page_delimiter (Suc 0) = [CHR 0x0A] @ ''--- Page 1 ---'' @ [CHR 0x0A]"
    by (simp add: page_delimiter_def str_nat.simps)
  have d3: "page_delimiter (Suc (Suc (Suc 0))) = [CHR 0x0A] @ ''--- Page 3 ---'' @ [CHR 0x0A]"
    by (simp add: page_delimiter_def str_nat.simps)
  show "t1 \<noteq> [] \<and> t3 \<noteq> [] \<longrightarrow>
        pdf_pages_loop 0 [t1, [], t3, [], []] []
          = [CHR 0x0A] @ ''--- Page 1 ---'' @ [CHR 0x0A] @ t1
            @ [CHR 0x0A] @ ''--- Page 3 ---'' @ [CHR 0x0A] @ t3"
    by (simp add: d1 d3)
qed

theorem pdf_page_delimiters_witness:
  "pdf_pages_loop 0 [''Alpha'', [], ''Gamma'', [], []] []
     = [CHR 0x0A] @ ''--- Page 1 ---'' @ [CHR 0x0A] @ ''Alpha''
       @ [CHR 0x0A] @ ''--- Page 3 ---'' @ [CHR 0x0A] @ ''Gamma''"
  using pdf_page_delimiters [of "[]" "''Alpha''" "''Gamma''"]
  by simp

subsection \<open>The plain-text extractor\<close>

lemma decode_loop_find:
  "decode_loop L encs txt_bytes =
     (case List.find (\<lambda>enc. bytes_decode L enc txt_bytes \<noteq> None) encs of
        None \<Rightarrow> None
      | Some enc \<Rightarrow> bytes_decode L enc txt_bytes)"
  by (induction encs) (auto split: option.splits)

text \<open>Latin-1 gives every byte a character, so with the codecs of Python the result is the
  UTF-8 decoding when the bytes are valid UTF-8 and the Latin-1 decoding otherwise.\<close>

lemma decode_txt_bytes_latin1:
  "bytes_decode L ''latin-1'' txt_bytes = Some t \<Longrightarrow>
     decode_txt_bytes L txt_bytes
       = Inr (case bytes_decode L ''utf-8'' txt_bytes of Some u \<Rightarrow> u | None \<Rightarrow> t)"
  by (simp add: decode_txt_bytes_def encodings_def split: option.split)

lemma example_decode_cafe:
  "bytes_decode example_libs ''utf-8'' [0x63, 0x61, 0x66, 0xE9] = None
   \<and> bytes_decode example_libs ''latin-1'' [0x63, 0x61, 0x66, 0xE9]
       = Some [CHR ''c'', CHR ''a'', CHR ''f'', CHR 0xE9]"
  unfolding example_libs_def by (simp add: example_decode_def) code_simp

text \<open>
  \<^bold>\<open>Claim C9.\<close> For every byte string the decoding step returns: its result is the decoding
  under the first of \<^verbatim>\<open>utf-8\<close>, \<^verbatim>\<open>latin-1\<close>, \<^verbatim>\<open>windows-1252\<close>, \<^verbatim>\<open>iso-8859-1\<close> that decodes
  without error, and the permissive decoding when all four fail. The extractor around it
  raises nothing either.
\<close>

theorem decode_txt_bytes_total:
  "decode_txt_bytes L txt_bytes =
     Inr (case List.find (\<lambda>enc. bytes_decode L enc txt_bytes \<noteq> None)
                 [''utf-8'', ''latin-1'', ''windows-1252'', ''iso-8859-1''] of
            Some enc \<Rightarrow> the (bytes_decode L enc txt_bytes)
          | None \<Rightarrow> bytes_decode_replace L txt_bytes)
   \<and> (\<exists>out. fst (extract_text_from_txt_bytes L self txt_bytes sent) = Inr out)"
proof
  show "decode_txt_bytes L txt_bytes =
     Inr (case List.find (\<lambda>enc. bytes_decode L enc txt_bytes \<noteq> None)
                 [''utf-8'', ''latin-1'', ''windows-1252'', ''iso-8859-1''] of
            Some enc \<Rightarrow> the (bytes_decode L enc txt_bytes)
          | None \<Rightarrow> bytes_decode_replace L txt_bytes)"
    unfolding decode_txt_bytes_def decode_loop_find encodings_def
    by (auto split: option.splits dest: find_Some_iff [THEN iffD1])
  obtain decoded where t: "decode_txt_bytes L txt_bytes = Inr decoded"
    by (cases "decode_loop L encodings txt_bytes") (auto simp: decode_txt_bytes_def)
  obtain out sent' where
    "clean_and_summarize_text self (slice_to decoded (text_extract_limit (config self))) ''TXT'' sent
       = (Inr out, sent')"
    using summarizer_returns by blast
  then show "\<exists>out. fst (extract_text_from_txt_bytes L self txt_bytes sent) = Inr out"
    by (simp add: extract_text_from_txt_bytes_def t reraise_Inr)
qed

theorem decode_txt_bytes_total_witness:
  "decode_txt_bytes example_libs [0x63, 0x61, 0x66, 0xE9] = Inr [CHR ''c'', CHR ''a'', CHR ''f'', CHR 0xE9]"
  using decode_txt_bytes_total [of example_libs "[0x63, 0x61, 0x66, 0xE9]" example_processor "[]"]
    example_decode_cafe
  by simp

subsection \<open>The image extractor\<close>

text \<open>
  \<^bold>\<open>Claim C3.\<close> As stated the claim fails: when the vision call fails, the extractor raises
  \<^verbatim>\<open>ValueError\<close> to its caller.
\<close>

theorem image_vision_failure_counterexample:
  "client_chat failing_processor [] (vision_request failing_processor [0x89, 0x50, 0x4E, 0x47])
     = Inl (OtherException ''ConnectionError'' ''connection refused'')
   \<and> fst (extract_content_from_image_bytes failing_processor [0x89, 0x50, 0x4E, 0x47] [])
     = Inl (ValueError ''Failed to process image: connection refused'')"
  by (simp add: extract_content_from_image_bytes_def Let_def failing_processor_def
      failing_service_def failed_to_process_def)

text \<open>
  \<^bold>\<open>Claim C3, amended.\<close> For every image, a failure of the vision call leaves the extractor as
  \<^verbatim>\<open>ValueError\<close> with the message \<^verbatim>\<open>Failed to process image: \<close> followed by the text of
  the failure. The degrade policy covers the summarization call that follows a vision call
  that succeeded: its failure gives the fallback text made from the vision report.
\<close>

theorem image_vision_failure_raised:
  "(client_chat self sent (vision_request self image_bytes) = Inl e \<longrightarrow>
      extract_content_from_image_bytes self image_bytes sent
        = (Inl (ValueError (''Failed to process image: '' @ str_exn e)),
           sent @ [vision_request self image_bytes]))
   \<and> (client_chat self sent (vision_request self image_bytes) = Inr report
        \<and> \<not> list_all isspace report
        \<and> client_chat self (sent @ [vision_request self image_bytes])
              (summarize_request self report ''image'') = Inl e' \<longrightarrow>
      fst (extract_content_from_image_bytes self image_bytes sent)
        = Inr (''Original content:'' @ [CHR 0x0A, CHR 0x0A]
                 @ slice_to report (text_extract_limit (config self))))"
  by (auto simp: extract_content_from_image_bytes_def Let_def failed_to_process_def
      reraise_def clean_and_summarize_text_def strip_Nil_iff)

theorem image_vision_failure_raised_witness:
  "extract_content_from_image_bytes failing_processor [0x89, 0x50, 0x4E, 0x47] []
     = (Inl (ValueError ''Failed to process image: connection refused''),
        [vision_request failing_processor [0x89, 0x50, 0x4E, 0x47]])
   \<and> fst (extract_content_from_image_bytes summary_failing_processor [0x89, 0x50, 0x4E, 0x47] [])
     = Inr (''Original content:'' @ [CHR 0x0A, CHR 0x0A] @ ''A bar'')"
proof -
  have v1: "client_chat failing_processor [] (vision_request failing_processor [0x89, 0x50, 0x4E, 0x47])
              = Inl (OtherException ''ConnectionError'' ''connection refused'')"
    by (simp add: failing_processor_def failing_service_def)
  have v2: "client_chat summary_failing_processor []
              (vision_request summary_failing_processor [0x89, 0x50, 0x4E, 0x47])
              = Inr ''A bar chart.''"
    by (simp add: summary_failing_processor_def summary_failing_service_def vision_request_def)
  have nb: "\<not> list_all isspace ''A bar chart.''"
    by (simp add: isspace_def)
  have s2: "client_chat summary_failing_processor
              ([] @ [vision_request summary_failing_processor [0x89, 0x50, 0x4E, 0x47]])
              (summarize_request summary_failing_processor ''A bar chart.'' ''image'')
              = Inl (OtherException ''ResponseError'' ''model not found'')"
    by (simp add: summary_failing_processor_def summary_failing_service_def summarize_request_def)
  have lim: "text_extract_limit (config summary_failing_processor) = 5"
    by (simp add: summary_failing_processor_def example_config_def default_config_def)
  show ?thesis
    using image_vision_failure_raised [of failing_processor "[]" "[0x89, 0x50, 0x4E, 0x47]"
        "OtherException ''ConnectionError'' ''connection refused''"] v1
      image_vision_failure_raised [of summary_failing_processor "[]" "[0x89, 0x50, 0x4E, 0x47]"
        _ "''A bar chart.''" "OtherException ''ResponseError'' ''model not found''"] v2 nb s2
    by (simp add: lim slice_to_def)
qed

text \<open>
  \<^bold>\<open>Claim C10.\<close> As stated the claim fails: when the vision model answers with white space
  only, the image is processed with one call to the service, and the result is the fixed
  message.
\<close>

theorem image_two_calls_counterexample:
  "client_chat blank_vision_processor [] (vision_request blank_vision_processor [0x89, 0x50, 0x4E, 0x47])
     = Inr [CHR '' '', CHR 0x0A]
   \<and> extract_content_from_image_bytes blank_vision_processor [0x89, 0x50, 0x4E, 0x47] []
     = (Inr ''No extractable text content found.'',
        [vision_request blank_vision_processor [0x89, 0x50, 0x4E, 0x47]])"
  by (simp add: extract_content_from_image_bytes_def Let_def blank_vision_processor_def
      blank_vision_service_def vision_request_def clean_and_summarize_text_def strip_def
      isspace_def reraise_def)

text \<open>
  \<^bold>\<open>Claim C10, amended.\<close> For every image whose vision call succeeds with a report that is not
  empty or white space only, the service is called exactly twice, first the vision model
  with the base64 text of the image, then the text model on the report, and the result is
  the answer of the text model, or the fallback made from the report when that call fails.
  When the report is empty or white space only, the vision call is the only call and the
  result is the fixed message.
\<close>

theorem image_two_calls:
  assumes "client_chat self sent (vision_request self image_bytes) = Inr report"
  shows "(\<not> list_all isspace report \<longrightarrow>
            snd (extract_content_from_image_bytes self image_bytes sent)
              = sent @ [vision_request self image_bytes, summarize_request self report ''image'']
          \<and> fst (extract_content_from_image_bytes self image_bytes sent)
              = (case client_chat self (sent @ [vision_request self image_bytes])
                        (summarize_request self report ''image'') of
                   Inr summary \<Rightarrow> Inr summary
                 | Inl e \<Rightarrow>
                     Inr (''Original content:'' @ [CHR 0x0A, CHR 0x0A]
                            @ slice_to report (text_extract_limit (config self)))))
       \<and> (list_all isspace report \<longrightarrow>
            extract_content_from_image_bytes self image_bytes sent
              = (Inr ''No extractable text content found.'',
                 sent @ [vision_request self image_bytes]))"
  using assms
  by (auto simp: extract_content_from_image_bytes_def Let_def reraise_def
      clean_and_summarize_text_def strip_Nil_iff split: sum.split)

theorem image_two_calls_witness:
  "extract_content_from_image_bytes example_processor [0x89, 0x50, 0x4E, 0x47] []
     = (Inr ''Summary of the image'',
        [vision_request example_processor [0x89, 0x50, 0x4E, 0x47],
         summarize_request example_processor ''A bar chart.'' ''image''])
   \<and> extract_content_from_image_bytes blank_vision_processor [0x89, 0x50, 0x4E, 0x47] []
     = (Inr ''No extractable text content found.'',
        [vision_request blank_vision_processor [0x89, 0x50, 0x4E, 0x47]])"
proof -
  have v1: "client_chat example_processor [] (vision_request example_processor [0x89, 0x50, 0x4E, 0x47])
              = Inr ''A bar chart.''"
    by (simp add: example_processor_def answering_service_def vision_request_def)
  have nb: "\<not> list_all isspace ''A bar chart.''"
    by (simp add: isspace_def)
  have s1: "client_chat example_processor
              ([] @ [vision_request example_processor [0x89, 0x50, 0x4E, 0x47]])
              (summarize_request example_processor ''A bar chart.'' ''image'')
              = Inr ''Summary of the image''"
    by (simp add: example_processor_def answering_service_def summarize_request_def)
  have v2: "client_chat blank_vision_processor []
              (vision_request blank_vision_processor [0x89, 0x50, 0x4E, 0x47])
              = Inr [CHR '' '', CHR 0x0A]"
    by (simp add: blank_vision_processor_def blank_vision_service_def vision_request_def)
  have b: "list_all isspace [CHR '' '', CHR 0x0A]"
    by (simp add: isspace_def)
  show ?thesis
    using image_two_calls [OF v1] nb s1 image_two_calls [OF v2] b
    by (simp add: prod_eq_iff)
qed

subsection \<open>The batch entry points\<close>

text \<open>
  \<^bold>\<open>Claim C1.\<close> The code does not do what the claim says. The concurrent batch calls
  \<^verbatim>\<open>process_single_file_async\<close>, which takes one file object, with a file name and the
  bytes; the call raises \<^verbatim>\<open>TypeError\<close> in the loop that creates the tasks, outside any
  handler. So on every batch that is not empty the function raises, with nothing sent to
  the service and no mapping returned.
\<close>

theorem batch_async_raises:
  "batch_process_documents_async L self ((filename, file_bytes) # rest) sent =
     (Inl (TypeError ''DocumentProcessor.process_single_file_async() takes 2 positional arguments but 3 were given''),
      sent)"
  by (simp add: batch_process_documents_async_def arity_single_file [symmetric] numeral_2_eq_2)

lemma batch_loop_map_of:
  "map_of (batch_process_documents_loop file_data results) filename =
     (if filename \<in> fst ` set file_data
      then Some (VStr (error_processing filename
             (arity_error ''DocumentProcessor.process_document_async''
                [''filename'', ''file_bytes'', ''file_mime''] 2)))
      else map_of results filename)"
proof (induction file_data arbitrary: results)
  case Nil
  then show ?case by simp
next
  case (Cons entry file_data)
  obtain k b where entry: "entry = (k, b)" by (cases entry)
  show ?case
    by (auto simp: entry Cons.IH update_conv' numeral_2_eq_2)
qed

text \<open>
  \<^bold>\<open>Claim C2.\<close> The code does not do what the claim says. The sequential batch calls
  \<^verbatim>\<open>process_document_async\<close> without the MIME type; the call raises \<^verbatim>\<open>TypeError\<close>, the
  handler stores the error string, and so every file name of the batch, valid or not, is
  mapped to that error string. No file is processed.
\<close>

theorem batch_sync_stores_errors:
  "map_of (batch_process_documents file_data) filename =
     (if filename \<in> fst ` set file_data
      then Some (VStr (''Error processing '' @ filename
             @ '': DocumentProcessor.process_document_async() missing 1 required positional argument: ''
             @ [CHR 0x27] @ ''file_mime'' @ [CHR 0x27]))
      else None)"
  by (simp add: batch_process_documents_def batch_loop_map_of arity_document error_processing_def)

end
